theory Spec2Isabelle
  imports Complex_Main
begin

section \<open>Thruster control of the rover (rover/thruster\_control.py)\<close>

text \<open>
  A shallow embedding of \<^verbatim>\<open>src/rover/thruster_control.py\<close>. Python floats are
  idealised as reals: comparisons, \<^verbatim>\<open>abs\<close>, \<^verbatim>\<open>min\<close> and \<^verbatim>\<open>max\<close> are exact on
  floats as well, the arithmetic of \<^verbatim>\<open>scale_m_distance\<close> is exact here and rounded
  there.
\<close>

subsection \<open>Module constants\<close>

definition CONTROL_TIMEOUT :: real where
  "CONTROL_TIMEOUT = 2"

definition DISTANCE_DEADBAND :: real where
  "DISTANCE_DEADBAND = 0.1"

definition FULL_PWR_DISTANCE :: real where
  "FULL_PWR_DISTANCE = 10"

definition MIN_PWR :: real where
  "MIN_PWR = 0.05"

definition MAX_MTR_PWR :: real where
  "MAX_MTR_PWR = 20"

subsection \<open>The pure functions\<close>

text \<open>
  \<^verbatim>\<open>scale_m_distance\<close>: the deadband test is on \<^verbatim>\<open>abs(m)\<close>; past it the
  offset \<open>x\<close> is computed from the constants and \<^verbatim>\<open>MIN_PWR\<close> is added to the
  quotient, whatever the sign of \<open>m\<close>.
\<close>

definition scale_m_distance :: "real \<Rightarrow> real" where
  "scale_m_distance m =
     (if \<bar>m\<bar> < DISTANCE_DEADBAND then 0
      else let x = (- 1 * FULL_PWR_DISTANCE * MIN_PWR) / (MIN_PWR - 1)
           in (m / (FULL_PWR_DISTANCE + x)) + MIN_PWR)"

definition scale_limit :: "real \<Rightarrow> real" where
  "scale_limit s = (let max_v = 1; min_v = - max_v in max min_v (min max_v s))"

text \<open>
  The dictionary \<^verbatim>\<open>pwrs\<close> built by \<^verbatim>\<open>drive_thrusters\<close>, in insertion order
  (the order \<^verbatim>\<open>pwrs.items()\<close> iterates in).
\<close>

definition pwrs :: "real \<Rightarrow> real \<Rightarrow> real \<Rightarrow> (string \<times> real) list" where
  "pwrs x y rot =
     [(''f'', MAX_MTR_PWR * scale_limit (x + rot)),
      (''b'', MAX_MTR_PWR * scale_limit (x - rot)),
      (''l'', MAX_MTR_PWR * scale_limit (y + rot)),
      (''r'', MAX_MTR_PWR * scale_limit (y - rot))]"

subsection \<open>The object's state\<close>

text \<open>
  A coordinate is the dictionary \<^verbatim>\<open>{'lat': ..., 'lon': ...}\<close>; \<^verbatim>\<open>self.movement\<close>
  is the dictionary with the keys \<^verbatim>\<open>x_trans\<close>, \<^verbatim>\<open>y_trans\<close>, \<^verbatim>\<open>xy_rot\<close> and
  \<^verbatim>\<open>ts\<close>, where \<^verbatim>\<open>ts\<close> is \<^verbatim>\<open>None\<close> until the first manual command.
\<close>

record coord =
  lat :: real
  lon :: real

record movement_dict =
  x_trans :: real
  y_trans :: real
  xy_rot :: real
  ts :: "real option"

datatype error = ValueError | KeyError | AttributeError | TypeError | IndexError

text \<open>
  \<^verbatim>\<open>self.gps\<close> after \<^verbatim>\<open>__init__\<close>: a connected \<^verbatim>\<open>GPSRead\<close>, \<^verbatim>\<open>None\<close> when the
  connection failed, or no attribute at all (the constructor assigns \<^verbatim>\<open>self.gps\<close>
  only when its \<^verbatim>\<open>gps\<close> argument is \<^verbatim>\<open>None\<close>).
\<close>

datatype gps_attr = Device | IsNone | NoAttr

text \<open>A \<^verbatim>\<open>BlueESC\<close> is identified by the bus address it was built with.\<close>

type_synonym esc = nat

datatype debug_msg =
    StopThrusters
  | ThrustersPower "(string \<times> real) list"
  | AutoDisable
  | AutonomousDiff "real \<times> real"
  | AutonomousNoGps

text \<open>What a call does to the outside: commands to the motor drivers, calls of the GPS, printed lines.\<close>

datatype event =
    SetPower esc real
  | StartPower esc real
  | ReadLocationData
  | GpsClose
  | PrintDebug debug_msg

record state =
  AUTO_TARGETS :: "coord list"
  DEBUG :: bool
  running :: bool
  auto_force_disable :: bool
  auto_target :: "coord option"
  movement :: movement_dict
  gps :: gps_attr
  thrusters :: "(string \<times> esc) list option"

text \<open>
  \<^verbatim>\<open>__init__\<close>, as a function of what the environment does: whether a \<^verbatim>\<open>gps\<close>
  argument was passed, whether \<^verbatim>\<open>GPSRead()\<close> connects, whether the four \<^verbatim>\<open>BlueESC\<close>
  can be built. Debug mode is entered exactly when the thrusters cannot be built. The
  orientation sensor is set up there too and never read afterwards; it is left out.
\<close>

definition init :: "bool \<Rightarrow> bool \<Rightarrow> bool \<Rightarrow> state" where
  "init gps_given gps_connects esc_built =
     \<lparr>AUTO_TARGETS = [\<lparr>lat = 41.73505, lon = - 71.319\<rparr>, \<lparr>lat = 41.736, lon = - 71.320\<rparr>],
      DEBUG = (\<not> esc_built),
      running = False,
      auto_force_disable = False,
      auto_target = None,
      movement = \<lparr>x_trans = 0, y_trans = 0, xy_rot = 0, ts = None\<rparr>,
      gps = (if gps_given then NoAttr else if gps_connects then Device else IsNone),
      thrusters = (if esc_built
                   then Some [(''f'', 0x2a), (''b'', 0x2d), (''l'', 0x2b), (''r'', 0x2c)]
                   else None)\<rparr>"

definition start :: "state \<Rightarrow> state" where
  "start s = s\<lparr>running := True\<rparr>"

subsection \<open>Commanding the thrusters\<close>

text \<open>
  The target list \<^verbatim>\<open>k, v\<close> of the loop in \<^verbatim>\<open>stop_thrusters\<close> unpacks each item
  the iteration yields. A string unpacks into its characters; with any number of them
  other than two Python raises \<^verbatim>\<open>ValueError\<close>.
\<close>

fun unpack2 :: "string \<Rightarrow> error + (string \<times> string)" where
  "unpack2 [a, b] = Inr ([a], [b])"
| "unpack2 item = Inl ValueError"

text \<open>
  \<^verbatim>\<open>for k, v in self.thrusters: self.thrusters[k].setPower(0)\<close>. Iterating a
  dictionary yields its keys; the commands sent before an exception stay sent.
\<close>

fun stop_loop :: "(string \<times> esc) list \<Rightarrow> string list \<Rightarrow> event list \<times> error option" where
  "stop_loop d [] = ([], None)"
| "stop_loop d (item # items) =
     (case unpack2 item of
        Inl e \<Rightarrow> ([], Some e)
      | Inr (k, v) \<Rightarrow>
          (case map_of d k of
             None \<Rightarrow> ([], Some KeyError)
           | Some m \<Rightarrow> (let (evs, r) = stop_loop d items in (SetPower m 0 # evs, r))))"

definition stop_thrusters :: "state \<Rightarrow> event list \<times> error option" where
  "stop_thrusters s =
     (case thrusters s of
        Some d \<Rightarrow> stop_loop d (map fst d)
      | None \<Rightarrow> ([PrintDebug StopThrusters], None))"

text \<open>\<^verbatim>\<open>for k, v in pwrs.items(): self.thrusters[k].startPower(v)\<close>.\<close>

fun start_loop :: "(string \<times> esc) list \<Rightarrow> (string \<times> real) list \<Rightarrow> event list \<times> error option" where
  "start_loop d [] = ([], None)"
| "start_loop d ((k, v) # items) =
     (case map_of d k of
        None \<Rightarrow> ([], Some KeyError)
      | Some m \<Rightarrow> (let (evs, r) = start_loop d items in (StartPower m v # evs, r)))"

definition drive_thrusters :: "real \<Rightarrow> real \<Rightarrow> real \<Rightarrow> state \<Rightarrow> event list \<times> error option" where
  "drive_thrusters x y rot s =
     (let p = pwrs x y rot
      in case thrusters s of
           Some d \<Rightarrow> start_loop d p
         | None \<Rightarrow> ([PrintDebug (ThrustersPower p)], None))"

subsection \<open>Entry points\<close>

text \<open>\<^verbatim>\<open>manual_control\<close>; the last argument is the value of \<^verbatim>\<open>time.time()\<close>.\<close>

definition manual_control :: "real \<Rightarrow> real \<Rightarrow> real \<Rightarrow> real \<Rightarrow> state \<Rightarrow> state" where
  "manual_control x y rot now s =
     s\<lparr>movement := \<lparr>x_trans = x, y_trans = y, xy_rot = rot, ts = Some now\<rparr>\<rparr>"

definition auto_enabled :: "state \<Rightarrow> bool" where
  "auto_enabled s = (if auto_target s = None then False else True)"

definition set_auto_target :: "real option \<Rightarrow> real option \<Rightarrow> state \<Rightarrow> state" where
  "set_auto_target lat_arg lon_arg s =
     (case (lat_arg, lon_arg) of
        (Some la, Some lo) \<Rightarrow> s\<lparr>auto_target := Some \<lparr>lat = la, lon = lo\<rparr>\<rparr>
      | _ \<Rightarrow> s\<lparr>auto_target := None\<rparr>)"

text \<open>
  \<^verbatim>\<open>get_next_auto_target\<close>: on the empty list \<^verbatim>\<open>self.AUTO_TARGETS[0]\<close> raises
  \<^verbatim>\<open>IndexError\<close>, which the function catches to return \<^verbatim>\<open>None\<close>.
\<close>

definition first_target :: "coord list \<Rightarrow> error + coord" where
  "first_target q = (case q of [] \<Rightarrow> Inl IndexError | t # rest \<Rightarrow> Inr t)"

definition get_next_auto_target :: "state \<Rightarrow> coord option \<times> state" where
  "get_next_auto_target s =
     (case first_target (AUTO_TARGETS s) of
        Inr t \<Rightarrow> (Some t, s\<lparr>AUTO_TARGETS := tl (AUTO_TARGETS s)\<rparr>)
      | Inl e \<Rightarrow> (None, s))"

definition next_auto_target :: "state \<Rightarrow> state" where
  "next_auto_target s = (let (t, s') = get_next_auto_target s in s'\<lparr>auto_target := t\<rparr>)"

definition get_remaining_waypoints :: "state \<Rightarrow> int" where
  "get_remaining_waypoints s = int (length (AUTO_TARGETS s))"

definition disable_auto :: "state \<Rightarrow> state \<times> event list" where
  "disable_auto s = (s\<lparr>auto_target := None\<rparr>, [PrintDebug AutoDisable])"

subsection \<open>One pass of the control loop\<close>

text \<open>How a pass through the body of \<^verbatim>\<open>while self.running\<close> ends.\<close>

datatype flow = Fallthrough | Continue | Raise error

definition flow_of :: "error option \<Rightarrow> flow" where
  "flow_of r = (case r of None \<Rightarrow> Fallthrough | Some e \<Rightarrow> Raise e)"

text \<open>The recent control check of line 157.\<close>

definition stale :: "real \<Rightarrow> movement_dict \<Rightarrow> bool" where
  "stale now m = (case ts m of None \<Rightarrow> True | Some t \<Rightarrow> now - t > CONTROL_TIMEOUT)"

definition movement_items :: "movement_dict \<Rightarrow> (string \<times> real option) list" where
  "movement_items m =
     [(''x_trans'', Some (x_trans m)), (''y_trans'', Some (y_trans m)),
      (''xy_rot'', Some (xy_rot m)), (''ts'', ts m)]"

text \<open>
  \<^verbatim>\<open>all((v == 0 or k is 'ts') for k, v in self.movement.items())\<close>. The key
  \<^verbatim>\<open>'ts'\<close> of the dictionary and the literal of the test are one interned string, so the
  identity test holds for that key and for no other.
\<close>

definition no_manual_input :: "movement_dict \<Rightarrow> bool" where
  "no_manual_input m = list_all (\<lambda>(k, v). v = Some 0 \<or> k = ''ts'') (movement_items m)"

text \<open>
  \<^verbatim>\<open>self.gps.readLocationData()\<close>: without a device the attribute access fails;
  with one, the outcome of the read is the environment's.
\<close>

definition readLocationData :: "gps_attr \<Rightarrow> error + coord \<Rightarrow> event list \<times> (error + coord)" where
  "readLocationData g dev =
     (case g of
        Device \<Rightarrow> ([ReadLocationData], dev)
      | IsNone \<Rightarrow> ([], Inl AttributeError)
      | NoAttr \<Rightarrow> ([], Inl AttributeError))"

text \<open>
  Lines 181 to 187, with the position \<open>loc\<close> in hand. \<^verbatim>\<open>util.gps_coord_mdiff\<close> is not
  part of the file and is a parameter.
\<close>

definition autonomous_drive ::
  "(real \<times> real \<Rightarrow> real \<times> real \<Rightarrow> real \<times> real) \<Rightarrow> coord \<Rightarrow> state \<Rightarrow> event list \<times> flow" where
  "autonomous_drive gps_coord_mdiff loc s =
     (case auto_target s of
        None \<Rightarrow> ([], Raise TypeError)
      | Some tgt \<Rightarrow>
          (let pos_diff_m = gps_coord_mdiff (lat loc, lon loc) (lat tgt, lon tgt);
               (evs, r) = drive_thrusters (scale_m_distance (fst pos_diff_m))
                            (scale_m_distance (snd pos_diff_m)) 0 s
           in (PrintDebug (AutonomousDiff pos_diff_m) # evs, flow_of r)))"

text \<open>
  The autonomous branch, lines 171 to 187. Only \<^verbatim>\<open>ValueError\<close> is caught; the handler
  calls \<^verbatim>\<open>stop_thrusters\<close> outside any \<^verbatim>\<open>try\<close>.
\<close>

definition autonomous ::
  "(real \<times> real \<Rightarrow> real \<times> real \<Rightarrow> real \<times> real) \<Rightarrow> error + coord \<Rightarrow> state \<Rightarrow> event list \<times> flow" where
  "autonomous gps_coord_mdiff dev s =
     (case readLocationData (gps s) dev of
        (evs, Inr loc) \<Rightarrow>
          (let (evs', fl) = autonomous_drive gps_coord_mdiff loc s in (evs @ evs', fl))
      | (evs, Inl e) \<Rightarrow>
          if e = ValueError then
            if DEBUG s then
              (let (evs', fl) = autonomous_drive gps_coord_mdiff \<lparr>lat = 41.735, lon = - 71.319\<rparr> s
               in (evs @ evs', fl))
            else
              (case stop_thrusters s of
                 (evs', Some e') \<Rightarrow> (evs @ evs', Raise e')
               | (evs', None) \<Rightarrow> (evs @ evs' @ [PrintDebug AutonomousNoGps], Continue))
          else (evs, Raise e))"

text \<open>
  The body of the loop after the sleep: \<open>now\<close> is the value of \<^verbatim>\<open>time.time()\<close>,
  \<open>dev\<close> what a read of the GPS device would give in this pass.
\<close>

definition run_tick ::
  "(real \<times> real \<Rightarrow> real \<times> real \<Rightarrow> real \<times> real) \<Rightarrow> real \<Rightarrow> error + coord \<Rightarrow> state
     \<Rightarrow> state \<times> event list \<times> flow" where
  "run_tick gps_coord_mdiff now dev s =
     (if stale now (movement s) then
        (let s1 = s\<lparr>auto_target := None\<rparr>;
             (evs, r) = stop_thrusters s1
         in (s1, evs, case r of None \<Rightarrow> Continue | Some e \<Rightarrow> Raise e))
      else
        (let (s1, evs, fl) =
               (if auto_target s = None \<or> \<not> no_manual_input (movement s) \<or> auto_force_disable s
                then (s\<lparr>auto_target := None\<rparr>, [], Fallthrough)
                else (let (evs, fl) = autonomous gps_coord_mdiff dev s in (s, evs, fl)))
         in case fl of
              Fallthrough \<Rightarrow>
                (if auto_target s1 = None
                 then (let m = movement s1;
                           (evs', r) = drive_thrusters (x_trans m) (y_trans m) (xy_rot m) s1
                       in (s1, evs @ evs', flow_of r))
                 else (s1, evs, Fallthrough))
            | Continue \<Rightarrow> (s1, evs, Continue)
            | Raise e \<Rightarrow> (s1, evs, Raise e)))"

text \<open>
  \<^verbatim>\<open>run\<close>: the loop over the passes the environment schedules, each with its clock
  value and GPS outcome. Nothing around the body catches an exception, so a pass that
  raises ends the loop, and the thread, with that exception. What other threads write
  to the state between two passes is not represented.
\<close>

fun run ::
  "(real \<times> real \<Rightarrow> real \<times> real \<Rightarrow> real \<times> real) \<Rightarrow> (real \<times> (error + coord)) list \<Rightarrow> state
     \<Rightarrow> state \<times> event list \<times> error option" where
  "run gps_coord_mdiff [] s = (s, [], None)"
| "run gps_coord_mdiff ((now, dev) # passes) s =
     (if \<not> running s then (s, [], None)
      else
        (case run_tick gps_coord_mdiff now dev s of
           (s1, evs, Raise e) \<Rightarrow> (s1, evs, Some e)
         | (s1, evs, fl) \<Rightarrow>
             (let (s2, evs', r) = run gps_coord_mdiff passes s1 in (s2, evs @ evs', r))))"

text \<open>
  \<^verbatim>\<open>close\<close>, up to the call of \<^verbatim>\<open>self.join()\<close>: the statements run in order and
  the first exception ends the call.
\<close>

definition close :: "state \<Rightarrow> state \<times> event list \<times> error option" where
  "close s =
     (case stop_thrusters s of
        (evs, Some e) \<Rightarrow> (s, evs, Some e)
      | (evs, None) \<Rightarrow>
          (case gps s of
             Device \<Rightarrow> (s\<lparr>running := False\<rparr>, evs @ [GpsClose], None)
           | IsNone \<Rightarrow> (s, evs, Some AttributeError)
           | NoAttr \<Rightarrow> (s, evs, Some AttributeError)))"

subsection \<open>Observing the autonomous branch\<close>

text \<open>
  The events only the autonomous branch produces: the read of the GPS and its two
  printed lines.
\<close>

fun autonomous_event :: "event \<Rightarrow> bool" where
  "autonomous_event ReadLocationData = True"
| "autonomous_event (PrintDebug (AutonomousDiff d)) = True"
| "autonomous_event (PrintDebug AutonomousNoGps) = True"
| "autonomous_event e = False"

section \<open>Properties\<close>

subsection \<open>The power scaler\<close>

lemma scale_m_distance_outside:
  "\<not> \<bar>m\<bar> < DISTANCE_DEADBAND \<Longrightarrow> scale_m_distance m = 19 / 200 * m + 1 / 20"
  by (simp add: scale_m_distance_def FULL_PWR_DISTANCE_def MIN_PWR_def Let_def)

text \<open>
  C5. Inside the deadband, \<open>\<bar>d\<bar> < DISTANCE_DEADBAND = 0.1\<close>, \<open>scale_m_distance d\<close>
  is exactly 0, for either sign of \<open>d\<close>; in particular at \<open>0.05\<close> and \<open>- 0.05\<close>.
\<close>

theorem C5_deadband_zero:
  "(\<forall>d. \<bar>d\<bar> < DISTANCE_DEADBAND \<longrightarrow> scale_m_distance d = 0)
   \<and> DISTANCE_DEADBAND = 0.1
   \<and> scale_m_distance 0.05 = 0 \<and> scale_m_distance (- 0.05) = 0"
  by (simp add: scale_m_distance_def DISTANCE_DEADBAND_def)

theorem C5_deadband_zero_witness:
  "\<bar>0.05 :: real\<bar> < DISTANCE_DEADBAND \<and> scale_m_distance 0.05 = 0
   \<and> \<bar>- 0.05 :: real\<bar> < DISTANCE_DEADBAND \<and> scale_m_distance (- 0.05) = 0"
proof -
  have pos: "\<bar>0.05 :: real\<bar> < DISTANCE_DEADBAND"
    by (simp add: DISTANCE_DEADBAND_def)
  have neg: "\<bar>- 0.05 :: real\<bar> < DISTANCE_DEADBAND"
    by (simp add: DISTANCE_DEADBAND_def)
  from C5_deadband_zero pos neg show ?thesis
    by blast
qed

text \<open>
  C4. Past the deadband the code divides by \<open>FULL_PWR_DISTANCE + x\<close> and adds
  \<open>MIN_PWR\<close> without looking at the sign of the distance. At \<open>10\<close> the result is
  \<open>1\<close>, but at \<open>- 10\<close> it is \<open>- 9 / 10\<close>, not \<open>- 1\<close>, and at \<open>- 0.2\<close>, which is
  outside the deadband, it is positive: the sign of the input is not kept.
\<close>

theorem C4_negative_distance:
  "scale_m_distance (- 10) = - (9 / 10)
   \<and> scale_m_distance (- 10) \<noteq> - 1
   \<and> \<not> \<bar>- 0.2 :: real\<bar> < DISTANCE_DEADBAND
   \<and> scale_m_distance (- 0.2) = 31 / 1000
   \<and> scale_m_distance 10 = 1"
  by (simp add: scale_m_distance_def DISTANCE_DEADBAND_def FULL_PWR_DISTANCE_def MIN_PWR_def
      Let_def)

text \<open>
  C6. On negative distances the magnitude of the output is not monotonic: \<open>- 0.2\<close> and
  \<open>- 0.4\<close> are both outside the deadband and \<open>\<bar>- 0.2\<bar> < \<bar>- 0.4\<bar>\<close>, yet the
  output magnitude falls from \<open>31 / 1000\<close> to \<open>12 / 1000\<close>.
\<close>

theorem C6_not_monotone_negative:
  "\<not> \<bar>- 0.2 :: real\<bar> < DISTANCE_DEADBAND \<and> \<not> \<bar>- 0.4 :: real\<bar> < DISTANCE_DEADBAND
   \<and> \<bar>- 0.2 :: real\<bar> < \<bar>- 0.4\<bar>
   \<and> \<bar>scale_m_distance (- 0.2)\<bar> = 31 / 1000
   \<and> \<bar>scale_m_distance (- 0.4)\<bar> = 12 / 1000
   \<and> \<not> \<bar>scale_m_distance (- 0.2)\<bar> \<le> \<bar>scale_m_distance (- 0.4)\<bar>"
  by (simp add: scale_m_distance_def DISTANCE_DEADBAND_def FULL_PWR_DISTANCE_def MIN_PWR_def
      Let_def)

subsection \<open>The thruster mixer\<close>

lemma scale_limit_bounds: "- 1 \<le> scale_limit s \<and> scale_limit s \<le> 1"
  by (simp add: scale_limit_def Let_def)

lemma scale_limit_abs: "\<bar>scale_limit s\<bar> \<le> 1"
  using scale_limit_bounds [of s] by (simp add: abs_le_iff)

lemma pwrs_bounded: "\<bar>MAX_MTR_PWR * scale_limit g\<bar> \<le> MAX_MTR_PWR"
  using scale_limit_abs [of g] by (simp add: MAX_MTR_PWR_def abs_mult)

text \<open>
  C7. For all gains the power map holds, per channel, \<open>MAX_MTR_PWR = 20\<close> times the raw
  gain (\<open>surge + yaw\<close>, \<open>surge - yaw\<close>, \<open>lateral + yaw\<close>, \<open>lateral - yaw\<close>) clamped to
  \<open>[- 1, 1]\<close>; so every command has magnitude at most \<open>MAX_MTR_PWR\<close>, the map of
  \<open>(5, 0, 0)\<close> is that of \<open>(1, 0, 0)\<close>, and the maps of \<open>(1, 0, 0)\<close> and \<open>(0, 0, 1)\<close>
  are the expected ones. With thrusters, \<^verbatim>\<open>drive_thrusters\<close> starts each of the four
  with its entry of the map; without, it prints the map.
\<close>

theorem C7_mixer:
  "pwrs surge lateral yaw =
     [(''f'', MAX_MTR_PWR * max (- 1) (min 1 (surge + yaw))),
      (''b'', MAX_MTR_PWR * max (- 1) (min 1 (surge - yaw))),
      (''l'', MAX_MTR_PWR * max (- 1) (min 1 (lateral + yaw))),
      (''r'', MAX_MTR_PWR * max (- 1) (min 1 (lateral - yaw)))]
   \<and> MAX_MTR_PWR = 20
   \<and> (\<forall>(k, v) \<in> set (pwrs surge lateral yaw). \<bar>v\<bar> \<le> MAX_MTR_PWR)
   \<and> pwrs 5 0 0 = pwrs 1 0 0
   \<and> pwrs 1 0 0 = [(''f'', MAX_MTR_PWR), (''b'', MAX_MTR_PWR), (''l'', 0), (''r'', 0)]
   \<and> pwrs 0 0 1 =
       [(''f'', MAX_MTR_PWR), (''b'', - MAX_MTR_PWR), (''l'', MAX_MTR_PWR), (''r'', - MAX_MTR_PWR)]
   \<and> drive_thrusters surge lateral yaw
         (s\<lparr>thrusters := Some [(''f'', 0x2a), (''b'', 0x2d), (''l'', 0x2b), (''r'', 0x2c)]\<rparr>) =
       ([StartPower 0x2a (MAX_MTR_PWR * max (- 1) (min 1 (surge + yaw))),
         StartPower 0x2d (MAX_MTR_PWR * max (- 1) (min 1 (surge - yaw))),
         StartPower 0x2b (MAX_MTR_PWR * max (- 1) (min 1 (lateral + yaw))),
         StartPower 0x2c (MAX_MTR_PWR * max (- 1) (min 1 (lateral - yaw)))], None)
   \<and> drive_thrusters surge lateral yaw (s\<lparr>thrusters := None\<rparr>) =
       ([PrintDebug (ThrustersPower (pwrs surge lateral yaw))], None)"
proof -
  have shape: "pwrs surge lateral yaw =
     [(''f'', MAX_MTR_PWR * max (- 1) (min 1 (surge + yaw))),
      (''b'', MAX_MTR_PWR * max (- 1) (min 1 (surge - yaw))),
      (''l'', MAX_MTR_PWR * max (- 1) (min 1 (lateral + yaw))),
      (''r'', MAX_MTR_PWR * max (- 1) (min 1 (lateral - yaw)))]"
    by (simp add: pwrs_def scale_limit_def Let_def)
  have bound: "\<forall>(k, v) \<in> set (pwrs surge lateral yaw). \<bar>v\<bar> \<le> MAX_MTR_PWR"
    using pwrs_bounded by (simp add: pwrs_def)
  have cases: "pwrs 5 0 0 = pwrs 1 0 0"
    "pwrs 1 0 0 = [(''f'', MAX_MTR_PWR), (''b'', MAX_MTR_PWR), (''l'', 0), (''r'', 0)]"
    "pwrs 0 0 1 =
       [(''f'', MAX_MTR_PWR), (''b'', - MAX_MTR_PWR), (''l'', MAX_MTR_PWR), (''r'', - MAX_MTR_PWR)]"
    by (simp_all add: pwrs_def scale_limit_def Let_def)
  have hw: "drive_thrusters surge lateral yaw
         (s\<lparr>thrusters := Some [(''f'', 0x2a), (''b'', 0x2d), (''l'', 0x2b), (''r'', 0x2c)]\<rparr>) =
       ([StartPower 0x2a (MAX_MTR_PWR * max (- 1) (min 1 (surge + yaw))),
         StartPower 0x2d (MAX_MTR_PWR * max (- 1) (min 1 (surge - yaw))),
         StartPower 0x2b (MAX_MTR_PWR * max (- 1) (min 1 (lateral + yaw))),
         StartPower 0x2c (MAX_MTR_PWR * max (- 1) (min 1 (lateral - yaw)))], None)"
    by (simp add: drive_thrusters_def pwrs_def scale_limit_def Let_def)
  have dbg: "drive_thrusters surge lateral yaw (s\<lparr>thrusters := None\<rparr>) =
       ([PrintDebug (ThrustersPower (pwrs surge lateral yaw))], None)"
    by (simp add: drive_thrusters_def Let_def)
  have m: "MAX_MTR_PWR = 20"
    by (simp add: MAX_MTR_PWR_def)
  from shape m bound cases hw dbg show ?thesis
    by blast
qed

theorem C7_mixer_witness:
  "(''f'', 20) \<in> set (pwrs 5 0 0) \<and> \<bar>20 :: real\<bar> \<le> MAX_MTR_PWR
   \<and> pwrs 5 0 0 = [(''f'', 20), (''b'', 20), (''l'', 0), (''r'', 0)]"
proof -
  from C7_mixer [of 5 0 0]
  have p: "pwrs 5 0 0 = [(''f'', 20), (''b'', 20), (''l'', 0), (''r'', 0)]"
    and b: "\<forall>(k, v) \<in> set (pwrs 5 0 0). \<bar>v\<bar> \<le> MAX_MTR_PWR"
    by simp_all
  from p have i: "(''f'', 20) \<in> set (pwrs 5 0 0)"
    by simp
  with b have "\<bar>20 :: real\<bar> \<le> MAX_MTR_PWR"
    by blast
  with p i show ?thesis
    by blast
qed

subsection \<open>The waypoint queue and the target\<close>

text \<open>
  C8. The queue is first in, first out: \<^verbatim>\<open>next_auto_target\<close> removes the front
  waypoint and makes it the target, and on the empty queue it unsets the target and
  leaves the queue empty. The count of remaining waypoints falls by one at each pop
  that succeeds and is never negative. With \<open>[A, B]\<close> queued, successive calls give
  the targets \<open>A\<close>, \<open>B\<close>, none, and the counts \<open>1\<close>, \<open>0\<close>, \<open>0\<close>.
\<close>

theorem C8_waypoint_queue_fifo:
  "(AUTO_TARGETS s = w # ws \<longrightarrow>
      next_auto_target s = s\<lparr>AUTO_TARGETS := ws, auto_target := Some w\<rparr>
      \<and> get_remaining_waypoints (next_auto_target s) = get_remaining_waypoints s - 1)
   \<and> (AUTO_TARGETS s = [] \<longrightarrow>
      next_auto_target s = s\<lparr>auto_target := None\<rparr>
      \<and> get_remaining_waypoints (next_auto_target s) = get_remaining_waypoints s)
   \<and> 0 \<le> get_remaining_waypoints s
   \<and> (AUTO_TARGETS s = [A, B] \<longrightarrow>
      auto_target (next_auto_target s) = Some A
      \<and> auto_target (next_auto_target (next_auto_target s)) = Some B
      \<and> auto_target (next_auto_target (next_auto_target (next_auto_target s))) = None
      \<and> get_remaining_waypoints s = 2
      \<and> get_remaining_waypoints (next_auto_target s) = 1
      \<and> get_remaining_waypoints (next_auto_target (next_auto_target s)) = 0
      \<and> get_remaining_waypoints (next_auto_target (next_auto_target (next_auto_target s))) = 0)"
  by (simp add: next_auto_target_def get_next_auto_target_def first_target_def
      get_remaining_waypoints_def)

theorem C8_waypoint_queue_fifo_witness:
  "let s = init False True True
   in AUTO_TARGETS s = [\<lparr>lat = 41.73505, lon = - 71.319\<rparr>, \<lparr>lat = 41.736, lon = - 71.320\<rparr>]
      \<and> auto_target (next_auto_target s) = Some \<lparr>lat = 41.73505, lon = - 71.319\<rparr>
      \<and> auto_target (next_auto_target (next_auto_target s)) = Some \<lparr>lat = 41.736, lon = - 71.320\<rparr>
      \<and> auto_target (next_auto_target (next_auto_target (next_auto_target s))) = None
      \<and> get_remaining_waypoints (next_auto_target s) = get_remaining_waypoints s - 1
      \<and> get_remaining_waypoints (next_auto_target (next_auto_target (next_auto_target s))) = 0"
proof -
  have q: "AUTO_TARGETS (init False True True) =
      [\<lparr>lat = 41.73505, lon = - 71.319\<rparr>, \<lparr>lat = 41.736, lon = - 71.320\<rparr>]"
    by (simp add: init_def)
  from C8_waypoint_queue_fifo [of "init False True True" "\<lparr>lat = 41.73505, lon = - 71.319\<rparr>"
      "[\<lparr>lat = 41.736, lon = - 71.320\<rparr>]" "\<lparr>lat = 41.73505, lon = - 71.319\<rparr>"
      "\<lparr>lat = 41.736, lon = - 71.320\<rparr>"] q
  show ?thesis
    unfolding Let_def by blast
qed

text \<open>
  C10. \<^verbatim>\<open>set_auto_target\<close> with the latitude or the longitude left out (\<^verbatim>\<open>None\<close>)
  unsets the target; with both given, the target is exactly that pair. Nothing else of
  the state changes.
\<close>

theorem C10_set_auto_target:
  "set_auto_target None lon_arg s = s\<lparr>auto_target := None\<rparr>
   \<and> set_auto_target lat_arg None s = s\<lparr>auto_target := None\<rparr>
   \<and> set_auto_target (Some la) (Some lo) s = s\<lparr>auto_target := Some \<lparr>lat = la, lon = lo\<rparr>\<rparr>"
  by (simp add: set_auto_target_def split: option.splits)

subsection \<open>The control loop\<close>

lemma start_loop_events:
  "e \<in> set (fst (start_loop d p)) \<Longrightarrow> \<exists>m v. e = StartPower m v"
  by (induction d p rule: start_loop.induct) (auto split: option.splits prod.splits)

lemma drive_thrusters_events:
  "e \<in> set (fst (drive_thrusters x y rot s)) \<Longrightarrow> \<not> autonomous_event e"
  by (auto simp: drive_thrusters_def Let_def split: option.splits dest: start_loop_events)

lemma no_manual_input_iff:
  "no_manual_input m \<longleftrightarrow> x_trans m = 0 \<and> y_trans m = 0 \<and> xy_rot m = 0"
  by (simp add: no_manual_input_def movement_items_def)

text \<open>
  With the four thrusters of \<^verbatim>\<open>__init__\<close>, \<^verbatim>\<open>stop_thrusters\<close> raises at the
  first key, before any command; so does every pass on a stale command. Without
  thrusters it prints a line.
\<close>

lemma stop_thrusters_built:
  "stop_thrusters (s\<lparr>thrusters := Some [(''f'', 0x2a), (''b'', 0x2d), (''l'', 0x2b), (''r'', 0x2c)]\<rparr>) =
     ([], Some ValueError)"
  by (simp add: stop_thrusters_def)

lemma stop_thrusters_debug:
  "stop_thrusters (s\<lparr>thrusters := None\<rparr>) = ([PrintDebug StopThrusters], None)"
  by (simp add: stop_thrusters_def)

lemma stale_tick_built:
  assumes "stale now (movement s)"
    and "thrusters s = Some [(''f'', 0x2a), (''b'', 0x2d), (''l'', 0x2b), (''r'', 0x2c)]"
  shows "run_tick gps_coord_mdiff now dev s = (s\<lparr>auto_target := None\<rparr>, [], Raise ValueError)"
  using assms by (simp add: run_tick_def stop_thrusters_def Let_def)

text \<open>
  C1. On the rover with its four thrusters built, a command stamped \<open>100\<close> is stale at
  \<open>102.01\<close>. The pass clears the target, and then \<^verbatim>\<open>stop_thrusters\<close> raises
  \<^verbatim>\<open>ValueError\<close> at the first key of the thruster dictionary: no power command is
  sent at all, and the exception ends the loop.
\<close>

theorem C1_stale_tick_on_hardware:
  "let s = manual_control 0 0 0 100
             (set_auto_target (Some 41.736) (Some (- 71.32)) (start (init False True True)))
   in stale 102.01 (movement s)
      \<and> run_tick gps_coord_mdiff 102.01 dev s = (s\<lparr>auto_target := None\<rparr>, [], Raise ValueError)
      \<and> run gps_coord_mdiff [(102.01, dev)] s = (s\<lparr>auto_target := None\<rparr>, [], Some ValueError)"
  by (simp add: Let_def run_tick_def stale_def CONTROL_TIMEOUT_def manual_control_def
      set_auto_target_def start_def init_def stop_thrusters_def)

theorem C1_stale_tick_on_hardware_witness:
  "let s = manual_control 0 0 0 100
             (set_auto_target (Some 41.736) (Some (- 71.32)) (start (init False True True)));
       r = run_tick (\<lambda>a b. (3, 4)) 102.01 (Inr \<lparr>lat = 41.735, lon = - 71.319\<rparr>) s
   in ts (movement s) = Some 100 \<and> (102.01 :: real) - 100 > CONTROL_TIMEOUT
      \<and> thrusters s = Some [(''f'', 0x2a), (''b'', 0x2d), (''l'', 0x2b), (''r'', 0x2c)]
      \<and> auto_target s = Some \<lparr>lat = 41.736, lon = - 71.32\<rparr>
      \<and> auto_target (fst r) = None \<and> fst (snd r) = [] \<and> snd (snd r) = Raise ValueError"
  using C1_stale_tick_on_hardware [of "\<lambda>a b. (3, 4)" "Inr \<lparr>lat = 41.735, lon = - 71.319\<rparr>"]
  by (simp add: Let_def CONTROL_TIMEOUT_def manual_control_def set_auto_target_def start_def
      init_def)

text \<open>
  C2. On the rover with its four thrusters built (so not in debug mode), in a fresh
  pass with a target set and no manual input, a GPS read that raises \<^verbatim>\<open>ValueError\<close>
  is caught, and the handler's \<^verbatim>\<open>stop_thrusters\<close> raises \<^verbatim>\<open>ValueError\<close> in turn:
  no power command is sent and the exception ends the loop. In debug mode the same
  pass takes the fixed coordinate \<open>(41.735, - 71.319)\<close> and goes on to print the
  difference and the power map.
\<close>

theorem C2_gps_failure_on_hardware:
  "(let s = manual_control 0 0 0 100
             (set_auto_target (Some 41.736) (Some (- 71.32)) (start (init False True True)))
    in \<not> DEBUG s \<and> \<not> stale 100.2 (movement s)
      \<and> run_tick gps_coord_mdiff 100.2 (Inl ValueError) s =
          (s, [ReadLocationData], Raise ValueError)
      \<and> run gps_coord_mdiff [(100.2, Inl ValueError)] s =
          (s, [ReadLocationData], Some ValueError))
   \<and> (let s = manual_control 0 0 0 100
             (set_auto_target (Some 41.736) (Some (- 71.32)) (start (init False True False)));
           d = gps_coord_mdiff (41.735, - 71.319) (41.736, - 71.32)
       in DEBUG s \<and> \<not> stale 100.2 (movement s)
      \<and> run_tick gps_coord_mdiff 100.2 (Inl ValueError) s =
          (s, [ReadLocationData, PrintDebug (AutonomousDiff d),
               PrintDebug (ThrustersPower
                 (pwrs (scale_m_distance (fst d)) (scale_m_distance (snd d)) 0))],
           Fallthrough))"
  by (simp add: Let_def run_tick_def stale_def CONTROL_TIMEOUT_def manual_control_def
      set_auto_target_def start_def init_def stop_thrusters_def autonomous_def
      autonomous_drive_def drive_thrusters_def flow_of_def
      no_manual_input_def movement_items_def readLocationData_def)

theorem C2_gps_failure_on_hardware_witness:
  "let s = manual_control 0 0 0 100
             (set_auto_target (Some 41.736) (Some (- 71.32)) (start (init False True True)));
       r = run (\<lambda>a b. (3, 4)) [(100.2, Inl ValueError)] s
   in \<not> DEBUG s \<and> ts (movement s) = Some 100 \<and> \<not> (100.2 :: real) - 100 > CONTROL_TIMEOUT
      \<and> running s
      \<and> thrusters s = Some [(''f'', 0x2a), (''b'', 0x2d), (''l'', 0x2b), (''r'', 0x2c)]
      \<and> auto_target s = Some \<lparr>lat = 41.736, lon = - 71.32\<rparr>
      \<and> fst (snd r) = [ReadLocationData] \<and> snd (snd r) = Some ValueError"
  using C2_gps_failure_on_hardware [of "\<lambda>a b. (3, 4)"]
  by (simp add: Let_def CONTROL_TIMEOUT_def manual_control_def set_auto_target_def start_def
      init_def)

text \<open>
  C3. In a pass with a fresh command (a time stamp \<open>t\<close> with \<open>now - t\<close> not above
  \<open>CONTROL_TIMEOUT\<close>): an event of the autonomous branch occurs only if the target
  is set, the three fields of the last manual command are all zero and
  \<^verbatim>\<open>auto_force_disable\<close> is false. When one of the three fails, the pass is exactly:
  clear the target, then drive the thrusters from the command's \<^verbatim>\<open>x_trans\<close>,
  \<^verbatim>\<open>y_trans\<close> and \<^verbatim>\<open>xy_rot\<close>. When all three hold, the pass is exactly the
  autonomous branch, and the target stays.
\<close>

theorem C3_autonomous_eligibility:
  assumes "ts (movement s) = Some t" and "\<not> now - t > CONTROL_TIMEOUT"
  shows "((\<exists>e \<in> set (fst (snd (run_tick gps_coord_mdiff now dev s))). autonomous_event e) \<longrightarrow>
            auto_target s \<noteq> None
            \<and> x_trans (movement s) = 0 \<and> y_trans (movement s) = 0 \<and> xy_rot (movement s) = 0
            \<and> \<not> auto_force_disable s)
       \<and> (\<not> (auto_target s \<noteq> None
              \<and> x_trans (movement s) = 0 \<and> y_trans (movement s) = 0 \<and> xy_rot (movement s) = 0
              \<and> \<not> auto_force_disable s) \<longrightarrow>
            run_tick gps_coord_mdiff now dev s =
              (let s1 = s\<lparr>auto_target := None\<rparr>;
                   (evs, r) = drive_thrusters (x_trans (movement s)) (y_trans (movement s))
                                (xy_rot (movement s)) s1
               in (s1, evs, flow_of r)))
       \<and> (auto_target s \<noteq> None
            \<and> x_trans (movement s) = 0 \<and> y_trans (movement s) = 0 \<and> xy_rot (movement s) = 0
            \<and> \<not> auto_force_disable s \<longrightarrow>
            run_tick gps_coord_mdiff now dev s =
              (let (evs, fl) = autonomous gps_coord_mdiff dev s in (s, evs, fl)))"
proof -
  let ?ok = "auto_target s \<noteq> None
              \<and> x_trans (movement s) = 0 \<and> y_trans (movement s) = 0 \<and> xy_rot (movement s) = 0
              \<and> \<not> auto_force_disable s"
  from assms have fresh: "\<not> stale now (movement s)"
    by (simp add: stale_def)
  have manual: "run_tick gps_coord_mdiff now dev s =
              (let s1 = s\<lparr>auto_target := None\<rparr>;
                   (evs, r) = drive_thrusters (x_trans (movement s)) (y_trans (movement s))
                                (xy_rot (movement s)) s1
               in (s1, evs, flow_of r))" if "\<not> ?ok"
    using that fresh
    by (auto simp: run_tick_def no_manual_input_iff Let_def split: prod.splits)
  have auto: "run_tick gps_coord_mdiff now dev s =
              (let (evs, fl) = autonomous gps_coord_mdiff dev s in (s, evs, fl))" if "?ok"
  proof (cases "autonomous gps_coord_mdiff dev s")
    case (Pair evs fl)
    with that fresh show ?thesis
      by (cases fl) (auto simp: run_tick_def no_manual_input_iff Let_def)
  qed
  have only_if: "?ok"
    if ev: "\<exists>e \<in> set (fst (snd (run_tick gps_coord_mdiff now dev s))). autonomous_event e"
  proof (rule ccontr)
    assume "\<not> ?ok"
    from manual [OF this] ev
    obtain e where
      "e \<in> set (fst (drive_thrusters (x_trans (movement s)) (y_trans (movement s))
                       (xy_rot (movement s)) (s\<lparr>auto_target := None\<rparr>)))"
      and "autonomous_event e"
      by (auto simp: Let_def split: prod.splits)
    then show False
      using drive_thrusters_events by blast
  qed
  from manual auto only_if show ?thesis
    by blast
qed

theorem C3_autonomous_eligibility_witness:
  "let s = manual_control 1 0 0 100
             (set_auto_target (Some 41.736) (Some (- 71.32)) (start (init False True True)))
   in ts (movement s) = Some 100 \<and> \<not> 100.2 - 100 > CONTROL_TIMEOUT
      \<and> auto_target s \<noteq> None \<and> x_trans (movement s) \<noteq> 0
      \<and> run_tick (\<lambda>a b. (3, 4)) 100.2 (Inr \<lparr>lat = 41.735, lon = - 71.319\<rparr>) s =
          (s\<lparr>auto_target := None\<rparr>,
           [StartPower 0x2a 20, StartPower 0x2d 20, StartPower 0x2b 0, StartPower 0x2c 0],
           Fallthrough)"
proof -
  define s where "s = manual_control 1 0 0 100
             (set_auto_target (Some 41.736) (Some (- 71.32)) (start (init False True True)))"
  have t: "ts (movement s) = Some 100"
    by (simp add: s_def manual_control_def)
  have f: "\<not> (100.2 :: real) - 100 > CONTROL_TIMEOUT"
    by (simp add: CONTROL_TIMEOUT_def)
  have x: "x_trans (movement s) \<noteq> 0" and a: "auto_target s \<noteq> None"
    by (simp_all add: s_def manual_control_def set_auto_target_def)
  have d: "drive_thrusters 1 0 0 (s\<lparr>auto_target := None\<rparr>) =
      ([StartPower 0x2a 20, StartPower 0x2d 20, StartPower 0x2b 0, StartPower 0x2c 0], None)"
    by (simp add: s_def manual_control_def set_auto_target_def start_def init_def
        drive_thrusters_def pwrs_def scale_limit_def MAX_MTR_PWR_def Let_def)
  have m: "movement s = \<lparr>x_trans = 1, y_trans = 0, xy_rot = 0, ts = Some 100\<rparr>"
    by (simp add: s_def manual_control_def)
  from C3_autonomous_eligibility [OF t f, of "\<lambda>a b. (3, 4)" "Inr \<lparr>lat = 41.735, lon = - 71.319\<rparr>"] x
  have "run_tick (\<lambda>a b. (3, 4)) 100.2 (Inr \<lparr>lat = 41.735, lon = - 71.319\<rparr>) s =
          (s\<lparr>auto_target := None\<rparr>,
           [StartPower 0x2a 20, StartPower 0x2d 20, StartPower 0x2b 0, StartPower 0x2c 0],
           Fallthrough)"
    by (simp add: m d flow_of_def)
  with t f x a show ?thesis
    unfolding s_def [symmetric] Let_def by simp
qed

subsection \<open>Stopping\<close>

text \<open>
  C9. On the rover with its four thrusters built, \<^verbatim>\<open>close\<close> raises \<^verbatim>\<open>ValueError\<close>
  in its first statement, the call of \<^verbatim>\<open>stop_thrusters\<close>: no power command has been
  sent, \<^verbatim>\<open>running\<close> is still true, and the call never reaches \<^verbatim>\<open>self.join()\<close>.
\<close>

theorem C9_close_on_hardware:
  "let s = start (init False True True)
   in close s = (s, [], Some ValueError) \<and> running (fst (close s))"
  by (simp add: Let_def close_def start_def init_def stop_thrusters_def)

end
